theory Spec2Isabelle
  imports Complex_Main "HOL-Library.Sublist"
begin

section \<open>Python string operations used by the case context\<close>

text \<open>
  The backend methods are listed in the repository's documents
  (\<^verbatim>\<open>SAFETY_FIXES.md\<close>, \<^verbatim>\<open>ADVANCED_FEATURES.md\<close>, \<^verbatim>\<open>THREE_TIER_URGENCY_SYSTEM.md\<close>);
  the chat client is \<^verbatim>\<open>Chat.tsx\<close>. Strings are lists of characters. The test
  \<^verbatim>\<open>needle in hay\<close> of Python is \<^const>\<open>sublist\<close>: \<open>hay = ps @ needle @ ss\<close>.

  \<^verbatim>\<open>str.lower()\<close> is modelled on ASCII letters; every other character is kept.
\<close>

definition lower_char :: "char \<Rightarrow> char" where
  "lower_char c =
     (case map_of (zip ''ABCDEFGHIJKLMNOPQRSTUVWXYZ'' ''abcdefghijklmnopqrstuvwxyz'') c of
        Some d \<Rightarrow> d
      | None \<Rightarrow> c)"

definition lower :: "string \<Rightarrow> string" where
  "lower s = map lower_char s"

text \<open>\<^verbatim>\<open>s.strip(chars)\<close>: drop the characters of \<open>chars\<close> from both ends.\<close>

definition strip :: "string \<Rightarrow> string \<Rightarrow> string" where
  "strip chars s =
     rev (dropWhile (\<lambda>c. c \<in> set chars) (rev (dropWhile (\<lambda>c. c \<in> set chars) s)))"

text \<open>\<^verbatim>\<open>s.replace(old, new)\<close> for a one-character \<open>old\<close>, the only use in the source.\<close>

definition replace :: "char \<Rightarrow> string \<Rightarrow> string \<Rightarrow> string" where
  "replace old new s = concat (map (\<lambda>c. if c = old then new else [c]) s)"

text \<open>
  \<^verbatim>\<open>s.split()\<close>: the maximal runs of non-whitespace characters, in order. The
  accumulator \<open>cur\<close> holds the current run reversed.
\<close>

definition is_space :: "char \<Rightarrow> bool" where
  "is_space c \<longleftrightarrow>
     c \<in> set [CHR '' '', CHR 0x09, CHR 0x0A, CHR 0x0B, CHR 0x0C, CHR 0x0D,
              CHR 0x1C, CHR 0x1D, CHR 0x1E, CHR 0x1F]"

fun split_from :: "string \<Rightarrow> string \<Rightarrow> string list" where
  "split_from cur [] = (if cur = [] then [] else [rev cur])"
| "split_from cur (c # cs) =
     (if is_space c
      then (if cur = [] then split_from [] cs else rev cur # split_from [] cs)
      else split_from (c # cur) cs)"

definition split :: "string \<Rightarrow> string list" where
  "split s = split_from [] s"

datatype py_error = KeyError string | ZeroDivisionError

section \<open>The case context with \<^verbatim>\<open>urgency_tier\<close> (three-tier listing)\<close>

text \<open>
  \<^verbatim>\<open>THREE_TIER_URGENCY_SYSTEM.md\<close> lists the class with the field
  \<^verbatim>\<open>urgency_tier\<close>, initially \<^verbatim>\<open>"routine"\<close>, and its single mutator. The field is a
  Python string; \<^verbatim>\<open>priority[...]\<close> on a string that is no key of the dictionary raises
  \<^verbatim>\<open>KeyError\<close>. The logging call has no effect on the state.
\<close>

record CaseContext_tier =
  urgency_tier :: string

definition priority :: "string \<rightharpoonup> nat" where
  "priority = map_of [(''routine'', 0), (''urgent'', 1), (''emergency'', 2)]"

definition set_urgency :: "string \<Rightarrow> CaseContext_tier \<Rightarrow> py_error + CaseContext_tier" where
  "set_urgency tier c =
     (case priority tier of
        None \<Rightarrow> Inl (KeyError tier)
      | Some p \<Rightarrow>
          (case priority (urgency_tier c) of
             None \<Rightarrow> Inl (KeyError (urgency_tier c))
           | Some q \<Rightarrow> Inr (if p > q then c\<lparr>urgency_tier := tier\<rparr> else c)))"

text \<open>A sequence of calls on one session; an exception ends it.\<close>

fun set_urgency_calls :: "string list \<Rightarrow> CaseContext_tier \<Rightarrow> py_error + CaseContext_tier" where
  "set_urgency_calls [] c = Inr c"
| "set_urgency_calls (tier # tiers) c =
     (case set_urgency tier c of
        Inl e \<Rightarrow> Inl e
      | Inr c' \<Rightarrow> set_urgency_calls tiers c')"

section \<open>The case context with \<^verbatim>\<open>emergency_level\<close> (safety and advanced-feature listings)\<close>

text \<open>
  \<^verbatim>\<open>SAFETY_FIXES.md\<close> and \<^verbatim>\<open>ADVANCED_FEATURES.md\<close> list the methods of the class
  whose level field is \<^verbatim>\<open>emergency_level\<close>, with the values \<^verbatim>\<open>"none"\<close>,
  \<^verbatim>\<open>"urgent"\<close>, \<^verbatim>\<open>"critical"\<close>; the three-tier listing renames them to
  \<^verbatim>\<open>routine\<close>, \<^verbatim>\<open>urgent\<close>, \<^verbatim>\<open>emergency\<close>. The record has the fields that the
  listed methods read or write. \<^verbatim>\<open>diagnostic_certainty\<close> is a float that is only
  compared with the literal 0.7; no double lies strictly between the double nearest to
  0.7 and the real 0.7, so the comparison on reals decides the same.
  \<^verbatim>\<open>asked_questions\<close> is a Python set, kept as a list without duplicates; a loop over
  it visits the list in order.
\<close>

record CaseContext =
  initial_symptoms :: string
  organ_system :: "string option"
  emergency_level :: string
  symptom_history :: "string list"
  locked :: bool
  severity_score :: int
  diagnostic_certainty :: real
  asked_questions :: "string list"

definition set_emergency :: "string \<Rightarrow> CaseContext \<Rightarrow> CaseContext" where
  "set_emergency level c =
     (if level = ''critical'' then c\<lparr>emergency_level := ''critical''\<rparr>
      else if level = ''urgent'' \<and> emergency_level c \<noteq> ''critical''
      then c\<lparr>emergency_level := ''urgent''\<rparr>
      else c)"

definition validate_organ_system_consistency :: "string \<Rightarrow> CaseContext \<Rightarrow> bool \<times> CaseContext" where
  "validate_organ_system_consistency new_system c =
     (case organ_system c of
        None \<Rightarrow> (True, c\<lparr>organ_system := Some new_system\<rparr>)
      | Some s \<Rightarrow> (s = new_system, c))"

text \<open>
  \<^verbatim>\<open>_calculate_severity\<close>. Each test of the listing has the shape
  \<^verbatim>\<open>if cond: self.severity_score += points\<close>, which is \<open>add_when\<close>. The listing reads
  \<^verbatim>\<open>text_lower\<close> without the line that binds it; the listing of
  \<^verbatim>\<open>_update_risk_weights\<close> binds it as \<^verbatim>\<open>text.lower()\<close>, and so does the model. No
  statement of the method can raise on a string, so the model is a total function on the
  state.
\<close>

definition add_when :: "bool \<Rightarrow> int \<Rightarrow> CaseContext \<Rightarrow> CaseContext" where
  "add_when cond points c =
     (if cond then c\<lparr>severity_score := severity_score c + points\<rparr> else c)"

definition calculate_severity :: "string \<Rightarrow> CaseContext \<Rightarrow> CaseContext" where
  "calculate_severity text c =
     (let text_lower = lower text;
          c = c\<lparr>severity_score := 0\<rparr>;
          c = add_when (sublist ''sudden'' text_lower) 2 c;
          c = add_when (sublist ''fever'' text_lower) 1 c;
          c = add_when (sublist ''headache'' text_lower) 3 c;
          c = add_when (sublist ''trauma'' text_lower) 3 c;
          c = add_when (sublist ''vomit'' text_lower) 1 c;
          c = add_when (sublist ''chest pain'' text_lower) 3 c;
          c = add_when (sublist (''can'' @ [CHR 0x27] @ ''t breathe'') text_lower) 2 c
      in if severity_score c \<ge> 5 then set_emergency ''critical'' c
         else if severity_score c \<ge> 3 then set_emergency ''urgent'' c
         else c)"

text \<open>
  The keyword and the points of every test of the listing, in its order, and the value
  that the assignments leave in \<^verbatim>\<open>severity_score\<close>: the points of every keyword that
  occurs in the lowered text, each keyword once.
\<close>

definition severity_keywords :: "(string \<times> int) list" where
  "severity_keywords =
     [(''sudden'', 2),
      (''fever'', 1),
      (''headache'', 3),
      (''trauma'', 3),
      (''vomit'', 1),
      (''chest pain'', 3),
      (''can'' @ [CHR 0x27] @ ''t breathe'', 2)]"

definition text_score :: "string \<Rightarrow> int" where
  "text_score text =
     sum_list (map (\<lambda>(keyword, points). if sublist keyword (lower text) then points else 0)
       severity_keywords)"

text \<open>
  The candidate tier in the words of the spec: a score below 3 gives routine, 3 to 4
  urgent, 5 and above emergency. \<open>level_of_tier\<close> gives the name that a tier has in the
  listings with \<^verbatim>\<open>emergency_level\<close>.
\<close>

definition spec_candidate_tier :: "int \<Rightarrow> string" where
  "spec_candidate_tier score =
     (if score < 3 then ''routine'' else if score \<le> 4 then ''urgent'' else ''emergency'')"

definition level_of_tier :: "string \<Rightarrow> string" where
  "level_of_tier tier =
     (if tier = ''emergency'' then ''critical''
      else if tier = ''urgent'' then ''urgent''
      else ''none'')"

text \<open>
  Modelled from the spec: the statements of \<^verbatim>\<open>_calculate_severity\<close> that record
  \<^verbatim>\<open>severity_factors\<close> are elided from the listing. Each test of the listing carries
  a comment naming its factor, and the logged output shows the keys
  \<^verbatim>\<open>sudden_onset\<close>, \<^verbatim>\<open>neurological\<close> and \<^verbatim>\<open>vomiting\<close>;
  \<^verbatim>\<open>get_risk_weight_explanation\<close> reads the keys \<^verbatim>\<open>trauma\<close> and \<^verbatim>\<open>fever\<close>.
  \<open>factor_names\<close> names the tests in the order of the listing, and the factor map of a
  text holds the factors whose keyword the text contains (factor name \<open>\<mapsto>\<close> point
  contribution, as the spec has it).
\<close>

definition factor_names :: "string list" where
  "factor_names =
     [''sudden_onset'', ''fever'', ''neurological'', ''trauma'', ''vomiting'', ''chest_pain'',
      ''breathing_difficulty'']"

definition severity_factors_of :: "string \<Rightarrow> (string \<times> int) list" where
  "severity_factors_of text =
     map (\<lambda>(name, keyword, points). (name, points))
       (filter (\<lambda>(name, keyword, points). sublist keyword (lower text))
          (zip factor_names severity_keywords))"



text \<open>Question tracking. \<^verbatim>\<open>set.add\<close> keeps one copy of an element.\<close>

definition normalized_of :: "string \<Rightarrow> string" where
  "normalized_of question =
     replace (CHR '','') [] (replace (CHR ''.'') [] (strip ''? '' (lower question)))"

definition set_add :: "'a \<Rightarrow> 'a list \<Rightarrow> 'a list" where
  "set_add x xs = (if x \<in> set xs then xs else xs @ [x])"

definition track_question :: "string \<Rightarrow> CaseContext \<Rightarrow> CaseContext" where
  "track_question question c =
     (let normalized = normalized_of question
      in c\<lparr>asked_questions := set_add normalized (asked_questions c)\<rparr>)"

text \<open>
  The loop of \<^verbatim>\<open>is_question_asked\<close> over the stored questions. The quotient is a
  float division: it raises \<^verbatim>\<open>ZeroDivisionError\<close> when the new question has no
  words. The quotient of two set sizes is compared with 0.7 as a real number: a quotient
  \<open>k / n\<close> that is not \<open>7 / 10\<close> differs from it by at least \<open>1 / (10 * n)\<close>, far more
  than a double's rounding for any number of words, so the floats compare the same way.
\<close>

fun similarity_loop :: "string list \<Rightarrow> string \<Rightarrow> py_error + bool" where
  "similarity_loop [] normalized = Inr False"
| "similarity_loop (asked # rest) normalized =
     (let asked_words = set (split asked);
          new_words = set (split normalized)
      in if card new_words = 0 then Inl ZeroDivisionError
         else if real (card (asked_words \<inter> new_words)) / real (card new_words) > 0.7
         then Inr True
         else similarity_loop rest normalized)"

definition is_question_asked :: "string \<Rightarrow> CaseContext \<Rightarrow> py_error + bool" where
  "is_question_asked question c =
     (let normalized = normalized_of question
      in if normalized \<in> set (asked_questions c) then Inr True
         else similarity_loop (asked_questions c) normalized)"

text \<open>
  The operations that change a case context during a session: the listed mutators, and
  an assignment to \<^verbatim>\<open>diagnostic_certainty\<close> of any value (the listings do not show
  how the certainty is derived, so every value is allowed).
\<close>

datatype operation =
    Set_emergency string
  | Calculate_severity string
  | Validate_organ_system string
  | Track_question string
  | Assign_certainty real

fun apply_operation :: "operation \<Rightarrow> CaseContext \<Rightarrow> CaseContext" where
  "apply_operation (Set_emergency level) c = set_emergency level c"
| "apply_operation (Calculate_severity text) c = calculate_severity text c"
| "apply_operation (Validate_organ_system s) c = snd (validate_organ_system_consistency s c)"
| "apply_operation (Track_question q) c = track_question q c"
| "apply_operation (Assign_certainty x) c = c\<lparr>diagnostic_certainty := x\<rparr>"

fun run_operations :: "operation list \<Rightarrow> CaseContext \<Rightarrow> CaseContext" where
  "run_operations [] c = c"
| "run_operations (x # xs) c = run_operations xs (apply_operation x c)"

text \<open>
  A case right after its first message, for concrete runs: no organ system assigned yet,
  level \<^verbatim>\<open>"none"\<close>, no question asked.
\<close>

definition case_started :: CaseContext where
  "case_started =
     \<lparr>initial_symptoms = ''I have a cough'', organ_system = None,
      emergency_level = ''none'', symptom_history = [], locked = True,
      severity_score = 0, diagnostic_certainty = 0, asked_questions = []\<rparr>"

section \<open>The chat client (\<^verbatim>\<open>Chat.tsx\<close>)\<close>

text \<open>
  The component state of \<^verbatim>\<open>Chat\<close>, one field per \<^verbatim>\<open>useState\<close>. Identifiers come
  from \<^verbatim>\<open>Date.now().toString()\<close>, which the model takes from its caller; time stamps
  are left out. A state setter called with a value or with an updater function becomes a
  record update. \<^verbatim>\<open>urgencyTier\<close> holds what the server sent, a string, or \<^verbatim>\<open>null\<close>.
\<close>

record Message =
  message_id :: string
  role :: string
  content :: string

record Session =
  session_id :: string
  title :: string
  session_messages :: "Message list"

record ChatState =
  sessions :: "Session list"
  activeSessionId :: "string option"
  messages :: "Message list"
  inputValue :: string
  urgencyTier :: "string option"
  isLoading :: bool

text \<open>The body of the POST to \<^verbatim>\<open>/api/chat\<close>: the fields that identify the turn.\<close>

record Request =
  form_message :: string
  form_session_id :: string

text \<open>
  What the \<^verbatim>\<open>fetch\<close> gives back: a failure (no answer, a status that is not ok, or a
  body that is no JSON), or the fields \<^verbatim>\<open>urgency_tier\<close> and \<^verbatim>\<open>response\<close> of the
  answer.
\<close>

datatype fetch_result = Fetch_failed | Fetch_ok "string option" string

text \<open>JavaScript truthiness of a string or \<^verbatim>\<open>null\<close>, and \<^verbatim>\<open>String.trim\<close> on ASCII.\<close>

definition truthy :: "string option \<Rightarrow> bool" where
  "truthy v = (case v of None \<Rightarrow> False | Some s \<Rightarrow> s \<noteq> [])"

definition js_space :: "char \<Rightarrow> bool" where
  "js_space c \<longleftrightarrow> c \<in> set [CHR '' '', CHR 0x09, CHR 0x0A, CHR 0x0B, CHR 0x0C, CHR 0x0D]"

definition trim :: "string \<Rightarrow> string" where
  "trim s = rev (dropWhile js_space (rev (dropWhile js_space s)))"

definition initial_chat :: ChatState where
  "initial_chat =
     \<lparr>sessions = [], activeSessionId = None, messages = [], inputValue = [],
      urgencyTier = None, isLoading = False\<rparr>"

definition startNewSession :: "string \<Rightarrow> ChatState \<Rightarrow> ChatState" where
  "startNewSession now st =
     (let newSession = \<lparr>session_id = now, title = ''New Assessment'', session_messages = []\<rparr>
      in st\<lparr>sessions := newSession # sessions st,
            activeSessionId := Some (session_id newSession),
            messages := [],
            urgencyTier := None\<rparr>)"

definition connection_trouble :: string where
  "connection_trouble =
     ''Sorry, I'' @ [CHR 0x27] @ ''m having trouble connecting to the assessment service. '' @
     ''Please try again in a moment.''"

definition catch_error :: "string \<Rightarrow> ChatState \<Rightarrow> ChatState" where
  "catch_error now st =
     st\<lparr>messages := messages st @
            [\<lparr>message_id = now, role = ''system'', content = connection_trouble\<rparr>],
        isLoading := False\<rparr>"

text \<open>
  \<^verbatim>\<open>handleSend\<close> up to its \<^verbatim>\<open>await fetch\<close>: the guard, the user message, and the
  request, if one is submitted. Reading the saved profile from local storage is inside
  the \<^verbatim>\<open>try\<close>: when it throws (\<open>profile_ok\<close> false) the \<^verbatim>\<open>catch\<close> runs and nothing
  is sent.
\<close>

definition handleSend :: "string \<Rightarrow> bool \<Rightarrow> ChatState \<Rightarrow> ChatState \<times> Request option" where
  "handleSend now profile_ok st =
     (if trim (inputValue st) = [] \<or> urgencyTier st = Some ''emergency'' then (st, None)
      else
        let userMessage = \<lparr>message_id = now, role = ''user'', content = inputValue st\<rparr>;
            currentInput = inputValue st;
            st' = st\<lparr>messages := messages st @ [userMessage],
                     inputValue := [],
                     isLoading := True\<rparr>
        in if profile_ok
           then (st', Some \<lparr>form_message = currentInput,
                            form_session_id =
                              (case activeSessionId st of
                                 None \<Rightarrow> ''default''
                               | Some sid \<Rightarrow> if sid = [] then ''default'' else sid)\<rparr>)
           else (catch_error now st', None))"

text \<open>\<^verbatim>\<open>handleSend\<close> after the \<^verbatim>\<open>await\<close>: the answer, or the \<^verbatim>\<open>catch\<close>.\<close>

definition handleResponse :: "string \<Rightarrow> fetch_result \<Rightarrow> ChatState \<Rightarrow> ChatState" where
  "handleResponse now r st =
     (case r of
        Fetch_failed \<Rightarrow> catch_error now st
      | Fetch_ok data_urgency_tier data_response \<Rightarrow>
          (let st = (if truthy data_urgency_tier then st\<lparr>urgencyTier := data_urgency_tier\<rparr>
                     else st)
           in st\<lparr>messages := messages st @
                    [\<lparr>message_id = now,
                      role = (if data_urgency_tier = Some ''emergency'' then ''system''
                              else ''assistant''),
                      content = data_response\<rparr>],
                  isLoading := False\<rparr>))"

text \<open>What the input area of the page renders.\<close>

datatype input_area = No_input_area | Disabled_notice | Input_controls

definition render_input_area :: "ChatState \<Rightarrow> input_area" where
  "render_input_area st =
     (if \<not> truthy (activeSessionId st) then No_input_area
      else if urgencyTier st = Some ''emergency'' then Disabled_notice
      else Input_controls)"

text \<open>
  The events of the page. Typing and sending need the rendered input controls, and a
  session is selected from the rendered list; an event whose control is not on the page
  does nothing. Each step returns the request it submits, if any.
\<close>

datatype event =
    Start_new_session string
  | Select_session string
  | Change_input string
  | Send string bool
  | Receive string fetch_result

fun step :: "event \<Rightarrow> ChatState \<Rightarrow> ChatState \<times> Request option" where
  "step (Start_new_session now) st = (startNewSession now st, None)"
| "step (Select_session sid) st =
     (if sid \<in> set (map session_id (sessions st))
      then (st\<lparr>activeSessionId := Some sid\<rparr>, None) else (st, None))"
| "step (Change_input v) st =
     (if render_input_area st = Input_controls then (st\<lparr>inputValue := v\<rparr>, None)
      else (st, None))"
| "step (Send now profile_ok) st =
     (if render_input_area st = Input_controls then handleSend now profile_ok st
      else (st, None))"
| "step (Receive now r) st = (handleResponse now r st, None)"

fun run_events :: "event list \<Rightarrow> ChatState \<Rightarrow> ChatState \<times> Request list" where
  "run_events [] st = (st, [])"
| "run_events (e # es) st =
     (let (st', req) = step e st;
          (st'', reqs) = run_events es st'
      in (st'', (case req of None \<Rightarrow> [] | Some r \<Rightarrow> [r]) @ reqs))"

text \<open>
  The events that can take the displayed tier away from emergency: the only calls of
  \<^verbatim>\<open>setUrgencyTier\<close> are in \<^verbatim>\<open>startNewSession\<close>, with \<^verbatim>\<open>null\<close>, and after an
  answer, with the tier the answer carries.
\<close>

fun changes_tier :: "event \<Rightarrow> bool" where
  "changes_tier (Start_new_session now) = True"
| "changes_tier (Receive now (Fetch_ok data_urgency_tier data_response)) =
     (truthy data_urgency_tier \<and> data_urgency_tier \<noteq> Some ''emergency'')"
| "changes_tier e = False"

section \<open>One-way urgency\<close>

lemma priority_Some_iff:
  "(\<exists>p. priority t = Some p) \<longleftrightarrow> t \<in> {''routine'', ''urgent'', ''emergency''}"
  by (auto simp: priority_def split: if_splits)

lemma set_urgency_step:
  assumes "priority tier = Some p" and "priority (urgency_tier c) = Some q"
  shows "set_urgency tier c = Inr (if p > q then c\<lparr>urgency_tier := tier\<rparr> else c)"
  using assms by (simp add: set_urgency_def)

lemma set_urgency_rank:
  assumes "priority tier = Some p" and "priority (urgency_tier c) = Some q"
  shows "\<exists>c'. set_urgency tier c = Inr c' \<and> priority (urgency_tier c') = Some (max p q)"
  using assms by (auto simp: set_urgency_def max_def)

lemma set_urgency_calls_append:
  "set_urgency_calls (xs @ ys) c =
     (case set_urgency_calls xs c of Inl e \<Rightarrow> Inl e | Inr c' \<Rightarrow> set_urgency_calls ys c')"
  by (induction xs arbitrary: c) (auto split: sum.splits)

lemma set_urgency_calls_rank:
  assumes "\<forall>t\<in>set ts. \<exists>p. priority t = Some p" and "priority (urgency_tier c) = Some q"
  shows "\<exists>c' q'. set_urgency_calls ts c = Inr c' \<and> priority (urgency_tier c') = Some q' \<and> q \<le> q'"
  using assms
proof (induction ts arbitrary: c q)
  case Nil
  then show ?case by simp
next
  case (Cons t ts)
  from Cons.prems(1) obtain p where p: "priority t = Some p" by auto
  from set_urgency_rank [OF p Cons.prems(2)] obtain c1
    where c1: "set_urgency t c = Inr c1" "priority (urgency_tier c1) = Some (max p q)" by blast
  from Cons.prems(1) have rest: "\<forall>t\<in>set ts. \<exists>p. priority t = Some p" by simp
  from Cons.IH [OF rest c1(2)] obtain c' q'
    where "set_urgency_calls ts c1 = Inr c'" "priority (urgency_tier c') = Some q'" "max p q \<le> q'"
    by blast
  with c1(1) show ?case by auto
qed

text \<open>
  Claim C1. With candidates among routine, urgent and emergency, and a session whose tier
  is one of the three: \<^verbatim>\<open>set_urgency(candidate)\<close> raises nothing, assigns the candidate
  exactly when its priority is above the current one and otherwise leaves the context as
  it is; and in every sequence of calls, the tier reached after the first calls \<open>xs\<close> has
  a priority that is at most the priority of the tier reached after the further calls
  \<open>ys\<close>: no call lowers the tier.
\<close>

theorem set_urgency_monotone:
  assumes "tier \<in> {''routine'', ''urgent'', ''emergency''}"
    and "set xs \<union> set ys \<subseteq> {''routine'', ''urgent'', ''emergency''}"
    and "urgency_tier c \<in> {''routine'', ''urgent'', ''emergency''}"
  shows "(\<exists>p q. priority tier = Some p \<and> priority (urgency_tier c) = Some q \<and>
            set_urgency tier c = Inr (if p > q then c\<lparr>urgency_tier := tier\<rparr> else c)) \<and>
         (\<exists>c1 c2 q1 q2.
            set_urgency_calls xs c = Inr c1 \<and> set_urgency_calls (xs @ ys) c = Inr c2 \<and>
            priority (urgency_tier c1) = Some q1 \<and> priority (urgency_tier c2) = Some q2 \<and>
            q1 \<le> q2)"
proof
  from assms(1) obtain p where p: "priority tier = Some p"
    using priority_Some_iff by blast
  from assms(3) obtain q where q: "priority (urgency_tier c) = Some q"
    using priority_Some_iff by blast
  from set_urgency_step [OF p q] p q
  show "\<exists>p q. priority tier = Some p \<and> priority (urgency_tier c) = Some q \<and>
            set_urgency tier c = Inr (if p > q then c\<lparr>urgency_tier := tier\<rparr> else c)"
    by blast
  have xs: "\<forall>t\<in>set xs. \<exists>p. priority t = Some p" and ys: "\<forall>t\<in>set ys. \<exists>p. priority t = Some p"
    using assms(2) priority_Some_iff by blast+
  from set_urgency_calls_rank [OF xs q] obtain c1 q1
    where c1: "set_urgency_calls xs c = Inr c1" "priority (urgency_tier c1) = Some q1" by blast
  from set_urgency_calls_rank [OF ys c1(2)] obtain c2 q2
    where c2: "set_urgency_calls ys c1 = Inr c2" "priority (urgency_tier c2) = Some q2" "q1 \<le> q2"
    by blast
  have "set_urgency_calls (xs @ ys) c = Inr c2"
    using c1(1) c2(1) by (simp add: set_urgency_calls_append)
  with c1 c2 show "\<exists>c1 c2 q1 q2.
            set_urgency_calls xs c = Inr c1 \<and> set_urgency_calls (xs @ ys) c = Inr c2 \<and>
            priority (urgency_tier c1) = Some q1 \<and> priority (urgency_tier c2) = Some q2 \<and>
            q1 \<le> q2"
    by blast
qed

text \<open>
  A session at urgent: the candidate routine changes nothing, urgent then emergency
  reaches emergency, and routine and urgent after that leave it at emergency.
\<close>

theorem set_urgency_monotone_witness:
  "set_urgency ''routine'' \<lparr>urgency_tier = ''urgent''\<rparr> = Inr \<lparr>urgency_tier = ''urgent''\<rparr> \<and>
   set_urgency_calls [''urgent'', ''emergency''] \<lparr>urgency_tier = ''urgent''\<rparr>
     = Inr \<lparr>urgency_tier = ''emergency''\<rparr> \<and>
   set_urgency_calls ([''urgent'', ''emergency''] @ [''routine'', ''urgent''])
       \<lparr>urgency_tier = ''urgent''\<rparr>
     = Inr \<lparr>urgency_tier = ''emergency''\<rparr>"
proof -
  have h1: "''routine'' \<in> {''routine'', ''urgent'', ''emergency''}" by simp
  have h2: "set [''urgent'', ''emergency''] \<union> set [''routine'', ''urgent'']
              \<subseteq> {''routine'', ''urgent'', ''emergency''}" by simp
  have h3: "urgency_tier \<lparr>urgency_tier = ''urgent''\<rparr> \<in> {''routine'', ''urgent'', ''emergency''}"
    by simp
  from set_urgency_monotone [OF h1 h2 h3] show ?thesis
    by (simp add: set_urgency_def priority_def)
qed

section \<open>Severity scoring\<close>

lemma add_when_eq:
  "add_when b n (c\<lparr>severity_score := k\<rparr>) = c\<lparr>severity_score := k + (if b then n else 0)\<rparr>"
  by (simp add: add_when_def)

lemma text_score_sum:
  "text_score text =
     0 + (if sublist ''sudden'' (lower text) then 2 else 0)
       + (if sublist ''fever'' (lower text) then 1 else 0)
       + (if sublist ''headache'' (lower text) then 3 else 0)
       + (if sublist ''trauma'' (lower text) then 3 else 0)
       + (if sublist ''vomit'' (lower text) then 1 else 0)
       + (if sublist ''chest pain'' (lower text) then 3 else 0)
       + (if sublist (''can'' @ [CHR 0x27] @ ''t breathe'') (lower text) then 2 else 0)"
  by (simp add: text_score_def severity_keywords_def)

lemma calculate_severity_eq:
  "calculate_severity text c =
     (if text_score text \<ge> 5
      then set_emergency ''critical'' (c\<lparr>severity_score := text_score text\<rparr>)
      else if text_score text \<ge> 3
      then set_emergency ''urgent'' (c\<lparr>severity_score := text_score text\<rparr>)
      else c\<lparr>severity_score := text_score text\<rparr>)"
  unfolding calculate_severity_def Let_def add_when_eq text_score_sum [symmetric]
  by simp

lemma severity_score_set_emergency:
  "severity_score (set_emergency level c) = severity_score c"
  by (simp add: set_emergency_def)

lemma calculate_severity_score: "severity_score (calculate_severity text c) = text_score text"
  by (simp add: calculate_severity_eq severity_score_set_emergency)

lemma set_emergency_none: "set_emergency ''none'' c = c"
  by (simp add: set_emergency_def)

text \<open>
  Claim C2. For every text and every context, \<^verbatim>\<open>_calculate_severity\<close> offers to the
  one-way setter the level that the thresholds give for the recomputed score: routine
  (\<^verbatim>\<open>"none"\<close>, no call) below 3, urgent at 3 and 4, emergency (\<^verbatim>\<open>"critical"\<close>) from 5
  on. On a context that is still at \<^verbatim>\<open>"none"\<close> the level after the call is that
  candidate.
\<close>

theorem calculate_severity_thresholds:
  "calculate_severity text c =
     set_emergency (level_of_tier (spec_candidate_tier (severity_score (calculate_severity text c))))
       (c\<lparr>severity_score := severity_score (calculate_severity text c)\<rparr>) \<and>
   (emergency_level c = ''none'' \<longrightarrow>
      emergency_level (calculate_severity text c) =
        level_of_tier (spec_candidate_tier (severity_score (calculate_severity text c))))"
proof -
  let ?s = "text_score text"
  have s: "severity_score (calculate_severity text c) = ?s"
    by (rule calculate_severity_score)
  consider "?s < 3" | "3 \<le> ?s" "?s \<le> 4" | "5 \<le> ?s" by linarith
  then have eq: "calculate_severity text c =
      set_emergency (level_of_tier (spec_candidate_tier ?s)) (c\<lparr>severity_score := ?s\<rparr>)"
  proof cases
    case 1
    then show ?thesis
      by (simp add: calculate_severity_eq spec_candidate_tier_def level_of_tier_def
          set_emergency_none)
  next
    case 2
    then show ?thesis
      by (simp add: calculate_severity_eq spec_candidate_tier_def level_of_tier_def)
  next
    case 3
    then show ?thesis
      by (simp add: calculate_severity_eq spec_candidate_tier_def level_of_tier_def)
  qed
  have "emergency_level (calculate_severity text c) = level_of_tier (spec_candidate_tier ?s)"
    if "emergency_level c = ''none''"
    using that by (subst eq) (simp add: set_emergency_def spec_candidate_tier_def level_of_tier_def)
  with eq s show ?thesis by simp
qed

lemma text_score_chest_pain: "text_score ''I have chest pain radiating to my arm'' = 3"
  by code_simp

text \<open>Chest pain alone scores 3: a case at \<^verbatim>\<open>"none"\<close> becomes urgent.\<close>

theorem calculate_severity_thresholds_witness:
  "emergency_level case_started = ''none'' \<and>
   severity_score (calculate_severity ''I have chest pain radiating to my arm'' case_started) = 3 \<and>
   emergency_level (calculate_severity ''I have chest pain radiating to my arm'' case_started)
     = ''urgent''"
proof -
  have h: "emergency_level case_started = ''none''" by (simp add: case_started_def)
  have s: "severity_score (calculate_severity ''I have chest pain radiating to my arm'' case_started) = 3"
    by (simp add: calculate_severity_score text_score_chest_pain)
  note t = calculate_severity_thresholds
    [of "''I have chest pain radiating to my arm''" case_started, THEN conjunct2, rule_format, OF h]
  from t h s show ?thesis by (simp add: spec_candidate_tier_def level_of_tier_def)
qed

text \<open>
  Claim C6. On the text "sudden severe headache and vomiting" exactly the keywords for
  sudden onset (2), the neurological symptom (3) and vomiting (1) occur; the score is 6,
  which is at least 5; and the level after the call is \<^verbatim>\<open>"critical"\<close>, the emergency
  tier, whatever the context was before.
\<close>

theorem severity_scenario_B:
  "filter (\<lambda>(keyword, points). sublist keyword (lower ''sudden severe headache and vomiting''))
     severity_keywords = [(''sudden'', 2), (''headache'', 3), (''vomit'', 1)] \<and>
   severity_score (calculate_severity ''sudden severe headache and vomiting'' c) = 6 \<and>
   (5::int) \<le> severity_score (calculate_severity ''sudden severe headache and vomiting'' c) \<and>
   emergency_level (calculate_severity ''sudden severe headache and vomiting'' c) = ''critical''"
proof -
  have k: "filter (\<lambda>(keyword, points).
              sublist keyword (lower ''sudden severe headache and vomiting''))
            severity_keywords = [(''sudden'', 2), (''headache'', 3), (''vomit'', 1)]"
    by code_simp
  have s: "text_score ''sudden severe headache and vomiting'' = 6"
    by code_simp
  show ?thesis
    by (simp add: calculate_severity_eq s k set_emergency_def)
qed

lemma text_score_factors: "text_score text = sum_list (map snd (severity_factors_of text))"
  by (simp add: text_score_def severity_factors_of_def factor_names_def severity_keywords_def)

lemma severity_factors_distinct: "distinct (map fst (severity_factors_of text))"
  by (simp add: severity_factors_of_def factor_names_def severity_keywords_def)

lemma text_score_presence:
  assumes "\<forall>(keyword, points)\<in>set severity_keywords.
             sublist keyword (lower text) = sublist keyword (lower text')"
  shows "text_score text = text_score text'"
proof -
  have "map (\<lambda>(keyword, points). if sublist keyword (lower text) then points else 0)
          severity_keywords =
        map (\<lambda>(keyword, points). if sublist keyword (lower text') then points else 0)
          severity_keywords"
    using assms by (intro map_cong) auto
  then show ?thesis by (simp only: text_score_def)
qed

lemma severity_factors_presence:
  assumes "\<forall>(keyword, points)\<in>set severity_keywords.
             sublist keyword (lower text) = sublist keyword (lower text')"
  shows "severity_factors_of text = severity_factors_of text'"
proof -
  have "filter (\<lambda>(name, keyword, points). sublist keyword (lower text))
          (zip factor_names severity_keywords) =
        filter (\<lambda>(name, keyword, points). sublist keyword (lower text'))
          (zip factor_names severity_keywords)"
    using assms by (intro filter_cong) (auto dest: set_zip_rightD)
  then show ?thesis by (simp only: severity_factors_of_def)
qed

lemma calculate_severity_twice:
  "calculate_severity text (calculate_severity text c) = calculate_severity text c"
  by (simp add: calculate_severity_eq set_emergency_def)

text \<open>
  Claim C7. The scorer keeps no count between calls: a second call on the same text
  leaves the whole context as the first call left it; the score does not depend on the
  context the call starts from; it is the sum of the points of the factors of the text,
  each factor name occurring once; and two texts in which the same keywords occur (however
  often) get the same score and the same factor map.
\<close>

theorem severity_scoring_stateless:
  "calculate_severity message (calculate_severity message c) = calculate_severity message c \<and>
   severity_score (calculate_severity message c) = severity_score (calculate_severity message c') \<and>
   severity_score (calculate_severity message c) = sum_list (map snd (severity_factors_of message)) \<and>
   distinct (map fst (severity_factors_of message)) \<and>
   ((\<forall>(keyword, points)\<in>set severity_keywords.
        sublist keyword (lower message) = sublist keyword (lower message')) \<longrightarrow>
      severity_score (calculate_severity message c) = severity_score (calculate_severity message' c) \<and>
      severity_factors_of message = severity_factors_of message')"
proof (intro conjI impI)
  show "calculate_severity message (calculate_severity message c) = calculate_severity message c"
    by (rule calculate_severity_twice)
  show "severity_score (calculate_severity message c) = severity_score (calculate_severity message c')"
    by (simp add: calculate_severity_score)
  show "severity_score (calculate_severity message c) = sum_list (map snd (severity_factors_of message))"
    by (simp add: calculate_severity_score text_score_factors)
  show "distinct (map fst (severity_factors_of message))"
    by (rule severity_factors_distinct)
next
  assume same: "\<forall>(keyword, points)\<in>set severity_keywords.
        sublist keyword (lower message) = sublist keyword (lower message')"
  then show "severity_factors_of message = severity_factors_of message'"
    by (rule severity_factors_presence)
  from same show "severity_score (calculate_severity message c)
      = severity_score (calculate_severity message' c)"
    by (simp add: calculate_severity_score text_score_presence)
qed

text \<open>Fever mentioned once and fever mentioned three times: the score is 1 both times.\<close>

theorem severity_scoring_stateless_witness:
  "severity_score (calculate_severity ''I have a fever'' case_started) = 1 \<and>
   severity_score (calculate_severity ''fever, fever and again a fever'' case_started) = 1 \<and>
   severity_factors_of ''fever, fever and again a fever'' = [(''fever'', 1)]"
proof -
  have h: "\<forall>(keyword, points)\<in>set severity_keywords.
        sublist keyword (lower ''I have a fever'')
          = sublist keyword (lower ''fever, fever and again a fever'')"
    by code_simp
  have s: "text_score ''I have a fever'' = 1" by code_simp
  have f: "severity_factors_of ''I have a fever'' = [(''fever'', 1)]" by code_simp
  note t = severity_scoring_stateless [where message = "''I have a fever''"
      and message' = "''fever, fever and again a fever''" and c = case_started,
      THEN conjunct2, THEN conjunct2, THEN conjunct2, THEN conjunct2, THEN mp, OF h]
  from t s f show ?thesis by (simp add: calculate_severity_score)
qed

lemma text_score_empty: "text_score [] = 0"
  by code_simp

lemma no_keyword_score:
  assumes "\<forall>(keyword, points)\<in>set severity_keywords. \<not> sublist keyword (lower text)"
  shows "text_score text = 0"
  using assms by (simp add: text_score_def severity_keywords_def)

lemma no_keyword_factors:
  assumes "\<forall>(keyword, points)\<in>set severity_keywords. \<not> sublist keyword (lower text)"
  shows "severity_factors_of text = []"
  using assms by (auto simp: severity_factors_of_def filter_empty_conv dest: set_zip_rightD)

text \<open>
  Claim C8. The empty text gives score 0 and no factor, and so does every text in which
  no keyword of the scorer occurs. The call returns a context in both cases (the method
  has no statement that raises): the context it was given with the score set to 0, the
  level untouched.
\<close>

theorem severity_of_empty_or_unrecognized:
  "calculate_severity [] c = c\<lparr>severity_score := 0\<rparr> \<and>
   severity_factors_of [] = [] \<and>
   ((\<forall>(keyword, points)\<in>set severity_keywords. \<not> sublist keyword (lower message)) \<longrightarrow>
      calculate_severity message c = c\<lparr>severity_score := 0\<rparr> \<and> severity_factors_of message = [])"
proof (intro conjI impI)
  show "calculate_severity [] c = c\<lparr>severity_score := 0\<rparr>"
    by (simp add: calculate_severity_eq text_score_empty)
  show "severity_factors_of [] = []"
    by code_simp
next
  assume none: "\<forall>(keyword, points)\<in>set severity_keywords. \<not> sublist keyword (lower message)"
  then show "calculate_severity message c = c\<lparr>severity_score := 0\<rparr>"
    by (simp add: calculate_severity_eq no_keyword_score)
  from none show "severity_factors_of message = []"
    by (rule no_keyword_factors)
qed

text \<open>"I have a cough" has no keyword: score 0, level \<^verbatim>\<open>"none"\<close>, no factor.\<close>

theorem severity_of_empty_or_unrecognized_witness:
  "calculate_severity ''I have a cough'' case_started = case_started \<and>
   severity_score (calculate_severity ''I have a cough'' case_started) = 0 \<and>
   emergency_level (calculate_severity ''I have a cough'' case_started) = ''none'' \<and>
   severity_factors_of ''I have a cough'' = []"
proof -
  have h: "\<forall>(keyword, points)\<in>set severity_keywords.
             \<not> sublist keyword (lower ''I have a cough'')"
    by code_simp
  note t = severity_of_empty_or_unrecognized [where message = "''I have a cough''"
      and c = case_started, THEN conjunct2, THEN conjunct2, THEN mp, OF h]
  from t show ?thesis by (simp add: case_started_def)
qed

section \<open>Organ-system lock and question suppression\<close>

lemma apply_operation_organ_system:
  "organ_system c = Some l \<Longrightarrow> organ_system (apply_operation x c) = Some l"
  by (cases x)
    (simp_all add: set_emergency_def calculate_severity_eq validate_organ_system_consistency_def
      track_question_def)

lemma run_operations_organ_system:
  "organ_system c = Some l \<Longrightarrow> organ_system (run_operations ops c) = Some l"
  by (induction ops arbitrary: c) (simp_all add: apply_operation_organ_system)

text \<open>
  Claim C5. \<^verbatim>\<open>validate_organ_system_consistency(candidate)\<close> on a context without an
  organ system assigns the candidate and returns true; on a context locked to \<open>l\<close> it
  returns whether the candidate equals \<open>l\<close> and leaves the whole context as it is, also
  when it returns false; and no sequence of operations changes a locked organ system.
\<close>

theorem organ_system_locked:
  "(organ_system c = None \<longrightarrow>
      validate_organ_system_consistency candidate c = (True, c\<lparr>organ_system := Some candidate\<rparr>)) \<and>
   (organ_system c = Some l \<longrightarrow>
      validate_organ_system_consistency candidate c = (candidate = l, c)) \<and>
   (organ_system c = Some l \<longrightarrow> organ_system (run_operations ops c) = Some l)"
proof (intro conjI impI)
  assume "organ_system c = None"
  then show "validate_organ_system_consistency candidate c
      = (True, c\<lparr>organ_system := Some candidate\<rparr>)"
    by (simp add: validate_organ_system_consistency_def)
next
  assume "organ_system c = Some l"
  then show "validate_organ_system_consistency candidate c = (candidate = l, c)"
    by (auto simp: validate_organ_system_consistency_def)
next
  assume "organ_system c = Some l"
  then show "organ_system (run_operations ops c) = Some l"
    by (rule run_operations_organ_system)
qed

text \<open>
  A case locked to cardiovascular: the gastrointestinal candidate is refused and the
  context stays as it was, and the lock survives a run of operations.
\<close>

theorem organ_system_locked_witness:
  "organ_system case_started = None \<and>
   validate_organ_system_consistency ''cardiovascular'' case_started
     = (True, case_started\<lparr>organ_system := Some ''cardiovascular''\<rparr>) \<and>
   validate_organ_system_consistency ''gastrointestinal''
       (case_started\<lparr>organ_system := Some ''cardiovascular''\<rparr>)
     = (False, case_started\<lparr>organ_system := Some ''cardiovascular''\<rparr>) \<and>
   organ_system
     (run_operations
        [Validate_organ_system ''gastrointestinal'',
         Calculate_severity ''also some stomach discomfort'',
         Track_question ''Where is the pain?'',
         Set_emergency ''urgent'',
         Validate_organ_system ''cardiovascular'']
        (case_started\<lparr>organ_system := Some ''cardiovascular''\<rparr>))
     = Some ''cardiovascular''"
proof -
  let ?c = "case_started\<lparr>organ_system := Some ''cardiovascular''\<rparr>"
  have h0: "organ_system case_started = None" by (simp add: case_started_def)
  have h1: "organ_system ?c = Some ''cardiovascular''" by simp
  note a = organ_system_locked [where c = case_started and candidate = "''cardiovascular''",
      THEN conjunct1, rule_format, OF h0]
  note b = organ_system_locked [where c = ?c and candidate = "''gastrointestinal''"
      and l = "''cardiovascular''", THEN conjunct2, THEN conjunct1, rule_format, OF h1]
  note d = organ_system_locked [where c = ?c and l = "''cardiovascular''" and ops =
      "[Validate_organ_system ''gastrointestinal'',
         Calculate_severity ''also some stomach discomfort'',
         Track_question ''Where is the pain?'',
         Set_emergency ''urgent'',
         Validate_organ_system ''cardiovascular'']",
      THEN conjunct2, THEN conjunct2, rule_format, OF h1]
  from h0 a b d show ?thesis by simp
qed




section \<open>Question tracking\<close>

lemma similarity_loop_no_words:
  assumes "split normalized = []" and "asked \<noteq> []"
  shows "similarity_loop asked normalized = Inl ZeroDivisionError"
  using assms by (cases asked) simp_all

lemma similarity_loop_words:
  assumes "split normalized \<noteq> []"
  shows "similarity_loop asked normalized =
     Inr (\<exists>a\<in>set asked.
            real (card (set (split a) \<inter> set (split normalized)))
              / real (card (set (split normalized))) > 0.7)"
  using assms
proof (induction asked)
  case Nil
  then show ?case by simp
next
  case (Cons a asked)
  from Cons.prems have "card (set (split normalized)) \<noteq> 0" by simp
  with Cons show ?case by (simp add: Let_def)
qed

lemma is_question_asked_true_cases:
  assumes "normalized_of q \<in> set (asked_questions c) \<or>
           (\<exists>a\<in>set (asked_questions c).
              real (card (set (split a) \<inter> set (split (normalized_of q))))
                > 0.7 * real (card (set (split (normalized_of q)))))"
  shows "is_question_asked q c = Inr True"
proof (cases "normalized_of q \<in> set (asked_questions c)")
  case True
  then show ?thesis by (simp add: is_question_asked_def)
next
  case False
  with assms obtain a where a: "a \<in> set (asked_questions c)"
    "real (card (set (split a) \<inter> set (split (normalized_of q))))
        > 0.7 * real (card (set (split (normalized_of q))))" by blast
  have ne: "split (normalized_of q) \<noteq> []"
  proof
    assume "split (normalized_of q) = []"
    with a(2) show False by simp
  qed
  then have pos: "0 < real (card (set (split (normalized_of q))))"
    by (simp add: card_gt_0_iff)
  from a(2) pos have "real (card (set (split a) \<inter> set (split (normalized_of q))))
              / real (card (set (split (normalized_of q)))) > 0.7"
    by (simp add: pos_less_divide_eq)
  with a(1) have "\<exists>a\<in>set (asked_questions c).
            real (card (set (split a) \<inter> set (split (normalized_of q))))
              / real (card (set (split (normalized_of q)))) > 0.7" by blast
  with False ne show ?thesis
    by (simp add: is_question_asked_def similarity_loop_words Let_def)
qed

lemma is_question_asked_stored:
  "is_question_asked q c =
     (if normalized_of q \<in> set (asked_questions c) then Inr True
      else similarity_loop (asked_questions c) (normalized_of q))"
  by (simp add: is_question_asked_def Let_def)

lemma tracked_trauma:
  "asked_questions (track_question ''Did you experience any trauma?'' (c\<lparr>asked_questions := []\<rparr>))
     = [''did you experience any trauma'']"
proof -
  have "normalized_of ''Did you experience any trauma?'' = ''did you experience any trauma''"
    by code_simp
  then show ?thesis by (simp add: track_question_def set_add_def)
qed

lemma tracked_three:
  "asked_questions
     (track_question ''Do you have any fever?''
        (track_question ''How long have you had this headache?''
           (track_question ''Did you experience any trauma?'' (c\<lparr>asked_questions := []\<rparr>))))
     = [''did you experience any trauma'', ''how long have you had this headache'',
        ''do you have any fever'']"
proof -
  have "normalized_of ''How long have you had this headache?''
          = ''how long have you had this headache''"
    and "normalized_of ''Do you have any fever?'' = ''do you have any fever''"
    by code_simp+
  then show ?thesis
    using tracked_trauma [of c] by (simp add: track_question_def set_add_def)
qed

lemma normalized_recent_trauma:
  "normalized_of ''Have you had any recent trauma?'' = ''have you had any recent trauma''"
  by code_simp

lemma recent_trauma_words:
  "set (split ''did you experience any trauma'') \<inter> set (split ''have you had any recent trauma'')
     = {''you'', ''any'', ''trauma''} \<and>
   card (set (split ''have you had any recent trauma'')) = 6"
  by code_simp

lemma recent_trauma_loops:
  "similarity_loop [''did you experience any trauma''] ''have you had any recent trauma''
     = Inr False \<and>
   similarity_loop
     [''did you experience any trauma'', ''how long have you had this headache'',
      ''do you have any fever'']
     ''have you had any recent trauma'' = Inr False"
  by code_simp

text \<open>
  Claim C4, at the example of the spec. After
  \<^verbatim>\<open>track_question("Did you experience any trauma?")\<close> on a context with no stored
  question, the stored form is "did you experience any trauma"; the new question
  "Have you had any recent trauma?" has six words, of which three (you, any, trauma) are
  words of the stored question, so the quotient is 0.5, not above 0.7, and
  \<^verbatim>\<open>is_question_asked\<close> returns false. It returns false as well with the three
  tracked questions of the worked example in \<^verbatim>\<open>ADVANCED_FEATURES.md\<close>. (The rule
  itself, true on an exact match or on an overlap above 70% of the new question's words,
  is \<open>is_question_asked_true_cases\<close>.)
\<close>

theorem rephrased_trauma_question_not_found:
  "normalized_of ''Have you had any recent trauma?'' = ''have you had any recent trauma'' \<and>
   asked_questions (track_question ''Did you experience any trauma?'' (c\<lparr>asked_questions := []\<rparr>))
     = [''did you experience any trauma''] \<and>
   set (split ''did you experience any trauma'') \<inter> set (split ''have you had any recent trauma'')
     = {''you'', ''any'', ''trauma''} \<and>
   card (set (split ''have you had any recent trauma'')) = 6 \<and>
   is_question_asked ''Have you had any recent trauma?''
     (track_question ''Did you experience any trauma?'' (c\<lparr>asked_questions := []\<rparr>)) = Inr False \<and>
   is_question_asked ''Have you had any recent trauma?''
     (track_question ''Do you have any fever?''
        (track_question ''How long have you had this headache?''
           (track_question ''Did you experience any trauma?'' (c\<lparr>asked_questions := []\<rparr>))))
     = Inr False"
proof -
  have one: "is_question_asked ''Have you had any recent trauma?''
     (track_question ''Did you experience any trauma?'' (c\<lparr>asked_questions := []\<rparr>)) = Inr False"
    by (simp add: is_question_asked_stored tracked_trauma normalized_recent_trauma
        recent_trauma_loops del: similarity_loop.simps)
  have three: "is_question_asked ''Have you had any recent trauma?''
     (track_question ''Do you have any fever?''
        (track_question ''How long have you had this headache?''
           (track_question ''Did you experience any trauma?'' (c\<lparr>asked_questions := []\<rparr>))))
     = Inr False"
    by (simp add: is_question_asked_stored tracked_three normalized_recent_trauma
        recent_trauma_loops del: similarity_loop.simps)
  from one three show ?thesis
    by (simp add: normalized_recent_trauma tracked_trauma recent_trauma_words)
qed

text \<open>
  Claim C10 as stated fails where the exact-match test answers first: with the stored
  question \<^verbatim>\<open>""\<close> (from \<^verbatim>\<open>track_question("?")\<close>), \<^verbatim>\<open>is_question_asked("")\<close> has no
  words, one question is tracked, and the call returns true without dividing.
\<close>

theorem exact_match_before_division_counterexample:
  "split (normalized_of '''') = [] \<and>
   asked_questions (track_question ''?'' case_started) = [''''] \<and>
   is_question_asked '''' (track_question ''?'' case_started) = Inr True"
  by code_simp

text \<open>
  Claim C10, amended. When the question has no words after normalization and at least
  one question is stored, \<^verbatim>\<open>is_question_asked\<close> raises \<^verbatim>\<open>ZeroDivisionError\<close>
  rather than returning false, unless the normalized question is itself a stored
  question, when the exact-match test returns true first.
\<close>

theorem is_question_asked_no_words:
  assumes "split (normalized_of q) = []" and "asked_questions c \<noteq> []"
  shows "is_question_asked q c =
     (if normalized_of q \<in> set (asked_questions c) then Inr True else Inl ZeroDivisionError)"
  using assms by (simp add: is_question_asked_def similarity_loop_no_words)

text \<open>A question of blanks and question marks, after one question was tracked.\<close>

theorem is_question_asked_no_words_witness:
  "split (normalized_of '' ?? '') = [] \<and>
   asked_questions (track_question ''Did you experience any trauma?'' case_started)
     = [''did you experience any trauma''] \<and>
   is_question_asked '' ?? '' (track_question ''Did you experience any trauma?'' case_started)
     = Inl ZeroDivisionError"
proof -
  let ?c = "track_question ''Did you experience any trauma?'' case_started"
  have h1: "split (normalized_of '' ?? '') = []" by code_simp
  have a: "asked_questions ?c = [''did you experience any trauma'']" by code_simp
  then have h2: "asked_questions ?c \<noteq> []" by simp
  have n: "normalized_of '' ?? '' = []" by code_simp
  from is_question_asked_no_words [OF h1 h2] h1 a n show ?thesis by simp
qed

section \<open>The chat client in emergency\<close>

lemma render_emergency:
  "urgencyTier st = Some ''emergency'' \<Longrightarrow> render_input_area st \<noteq> Input_controls"
  by (simp add: render_input_area_def)

lemma step_keeps_emergency:
  assumes "urgencyTier st = Some ''emergency''" and "\<not> changes_tier e"
  shows "urgencyTier (fst (step e st)) = Some ''emergency'' \<and> snd (step e st) = None"
proof (cases e)
  case (Receive now r)
  with assms show ?thesis
    by (cases r) (auto simp: handleResponse_def catch_error_def)
qed (use assms in \<open>simp_all add: render_emergency\<close>)

lemma run_events_keep_emergency:
  assumes "urgencyTier st = Some ''emergency''" and "\<forall>e\<in>set es. \<not> changes_tier e"
  shows "urgencyTier (fst (run_events es st)) = Some ''emergency'' \<and> snd (run_events es st) = []"
  using assms
proof (induction es arbitrary: st)
  case Nil
  then show ?case by simp
next
  case (Cons e es)
  from Cons.prems have e: "\<not> changes_tier e" and es: "\<forall>e\<in>set es. \<not> changes_tier e"
    by simp_all
  from step_keeps_emergency [OF Cons.prems(1) e]
  have s: "urgencyTier (fst (step e st)) = Some ''emergency''" "snd (step e st) = None" by simp_all
  from Cons.IH [OF s(1) es] s(2) show ?case
    by (simp add: case_prod_unfold)
qed

text \<open>
  The lock that the page attempts: while the displayed tier is emergency,
  \<^verbatim>\<open>handleSend\<close> returns without sending and without changing the state, an active
  session shows the disabled notice, and typing, sending, selecting a session, failed
  answers and answers that carry emergency again leave the tier at emergency with nothing
  submitted. \<^verbatim>\<open>startNewSession\<close> resets the tier to \<^verbatim>\<open>null\<close>.
\<close>

lemma handleSend_blocked_while_emergency:
  assumes "urgencyTier st = Some ''emergency''"
  shows "handleSend now profile_ok st = (st, None) \<and>
         (truthy (activeSessionId st) \<longrightarrow> render_input_area st = Disabled_notice) \<and>
         ((\<forall>e\<in>set es. \<not> changes_tier e) \<longrightarrow>
            urgencyTier (fst (run_events es st)) = Some ''emergency'' \<and>
            snd (run_events es st) = []) \<and>
         urgencyTier (startNewSession now st) = None"
  using assms run_events_keep_emergency [OF assms, of es]
  by (simp add: handleSend_def render_input_area_def startNewSession_def)

text \<open>
  Claim C9, at a run of the page in which the lock is bypassed. Session 1700000000000
  reaches emergency and shows the disabled notice. A new assessment resets the displayed
  tier, as \<^verbatim>\<open>startNewSession\<close> does for the session it makes active; the first session
  is then selected again from the list, which sets \<^verbatim>\<open>activeSessionId\<close> and leaves the
  tier at \<^verbatim>\<open>null\<close>; and the next message is submitted with the id of the session that
  was in emergency, where the claim has no further message for that session.
\<close>

theorem reselected_emergency_session_accepts_message:
  "urgencyTier (fst (run_events
      [Start_new_session ''1700000000000'',
       Change_input ''crushing chest pain'',
       Send ''1700000001000'' True,
       Receive ''1700000002000'' (Fetch_ok (Some ''emergency'') ''Call 911 immediately.'')]
      initial_chat)) = Some ''emergency'' \<and>
   activeSessionId (fst (run_events
      [Start_new_session ''1700000000000'',
       Change_input ''crushing chest pain'',
       Send ''1700000001000'' True,
       Receive ''1700000002000'' (Fetch_ok (Some ''emergency'') ''Call 911 immediately.'')]
      initial_chat)) = Some ''1700000000000'' \<and>
   render_input_area (fst (run_events
      [Start_new_session ''1700000000000'',
       Change_input ''crushing chest pain'',
       Send ''1700000001000'' True,
       Receive ''1700000002000'' (Fetch_ok (Some ''emergency'') ''Call 911 immediately.'')]
      initial_chat)) = Disabled_notice \<and>
   snd (run_events
      [Change_input ''I feel better now'',
       Send ''1700000003000'' True]
      (fst (run_events
        [Start_new_session ''1700000000000'',
         Change_input ''crushing chest pain'',
         Send ''1700000001000'' True,
         Receive ''1700000002000'' (Fetch_ok (Some ''emergency'') ''Call 911 immediately.'')]
        initial_chat))) = [] \<and>
   snd (run_events
      [Start_new_session ''1700000060000'',
       Select_session ''1700000000000'',
       Change_input ''still here'',
       Send ''1700000070000'' True]
      (fst (run_events
        [Start_new_session ''1700000000000'',
         Change_input ''crushing chest pain'',
         Send ''1700000001000'' True,
         Receive ''1700000002000'' (Fetch_ok (Some ''emergency'') ''Call 911 immediately.'')]
        initial_chat)))
     = [\<lparr>form_message = ''still here'', form_session_id = ''1700000000000''\<rparr>]"
  by code_simp

end
